theory Spec2Isabelle
  imports Complex_Main
begin

section \<open>Usage-budgeted LLM orchestration of the digital wardrobe\<close>

text \<open>
  A shallow embedding of \<^verbatim>\<open>backend/app/llm_service.py\<close> (classes
  \<^verbatim>\<open>UsageTracker\<close> and \<^verbatim>\<open>LLMService\<close>) and of
  \<^verbatim>\<open>backend/app/llm_service_demo.py\<close> (class \<^verbatim>\<open>DemoLLMService\<close>).

  Conventions of the model:
  \<^item> Python's unbounded \<^verbatim>\<open>int\<close> is \<^typ>\<open>int\<close>.
  \<^item> Python's \<^verbatim>\<open>float\<close> is \<^typ>\<open>real\<close>: costs and budgets are exact numbers, the
    rounding of IEEE arithmetic, infinities and NaN are outside the model.
  \<^item> Every reading of \<^verbatim>\<open>datetime.now()\<close> is an explicit argument \<open>now\<close>.
  \<^item> Mutation of \<^verbatim>\<open>self\<close> is state passing: a method takes the object and returns
    the updated object (and its result).
  \<^item> A raised exception is the \<open>Inl\<close> branch of a sum.
  \<^item> Logging has no effect on the state and is left out.
\<close>

subsection \<open>Dates and times\<close>

text \<open>
  \<^verbatim>\<open>datetime.date\<close> and \<^verbatim>\<open>datetime.datetime\<close>. Of a datetime the code reads
  \<^verbatim>\<open>.date()\<close> and \<^verbatim>\<open>.hour\<close> only; minutes and below are never read and are not
  represented.
\<close>

record date =
  year :: nat
  month :: nat
  day :: nat

record datetime =
  dt_year :: nat
  dt_month :: nat
  dt_day :: nat
  dt_hour :: nat

text \<open>\<^verbatim>\<open>dt.date()\<close>\<close>

definition date_of :: "datetime \<Rightarrow> date" where
  "date_of dt = \<lparr>year = dt_year dt, month = dt_month dt, day = dt_day dt\<rparr>"

text \<open>\<^verbatim>\<open>d1 > d2\<close> on dates: the order of (year, month, day).\<close>

definition date_gt :: "date \<Rightarrow> date \<Rightarrow> bool" where
  "date_gt a b \<longleftrightarrow>
     year a > year b \<or>
     (year a = year b \<and> (month a > month b \<or> (month a = month b \<and> day a > day b)))"

text \<open>\<^verbatim>\<open>d.replace(day=1)\<close> on a date and on a datetime.\<close>

definition date_replace_day1 :: "date \<Rightarrow> date" where
  "date_replace_day1 d = d\<lparr>day := 1\<rparr>"

definition datetime_replace_day1 :: "datetime \<Rightarrow> datetime" where
  "datetime_replace_day1 dt = dt\<lparr>dt_day := 1\<rparr>"

text \<open>
  The attribute \<^verbatim>\<open>monthly_reset\<close> holds a \<^verbatim>\<open>datetime\<close> after construction
  (\<^verbatim>\<open>datetime.now().replace(day=1)\<close>) and a plain \<^verbatim>\<open>date\<close> after the first monthly
  reset (\<^verbatim>\<open>now.date().replace(day=1)\<close>); \<^verbatim>\<open>isinstance(x, datetime)\<close> tells them apart.
\<close>

datatype stamp = AsDatetime datetime | AsDate date

text \<open>
  Truth value of a \<^verbatim>\<open>date\<close> object used as a condition: the class defines neither
  \<^verbatim>\<open>__bool__\<close> nor \<^verbatim>\<open>__len__\<close>, so every date is true.
\<close>

definition date_truthy :: "date \<Rightarrow> bool" where
  "date_truthy d = True"

subsection \<open>Formatting\<close>

text \<open>\<^verbatim>\<open>str(n)\<close> for an int, as an f-string field \<^verbatim>\<open>{n}\<close> prints it.\<close>

definition digit_char :: "nat \<Rightarrow> char" where
  "digit_char n = ''0123456789'' ! (n mod 10)"

fun str_nat :: "nat \<Rightarrow> string" where
  "str_nat n = (if n < 10 then [digit_char n] else str_nat (n div 10) @ [digit_char n])"

declare str_nat.simps [simp del]

definition str_int :: "int \<Rightarrow> string" where
  "str_int i = (if i < 0 then ''-'' @ str_nat (nat (- i)) else str_nat (nat i))"

text \<open>
  Rounding to the nearest integer, ties to the even neighbour: what \<^verbatim>\<open>round\<close> and the
  \<^verbatim>\<open>.2f\<close> format do with the exact value of their argument.
\<close>

definition round_half_even :: "real \<Rightarrow> int" where
  "round_half_even y =
     (let f = \<lfloor>y\<rfloor>; d = y - of_int f
      in if d < 1 / 2 then f else if d > 1 / 2 then f + 1 else if even f then f else f + 1)"

text \<open>\<^verbatim>\<open>round(x, n)\<close>\<close>

definition py_round :: "real \<Rightarrow> nat \<Rightarrow> real" where
  "py_round x n = of_int (round_half_even (x * 10 ^ n)) / 10 ^ n"

text \<open>The f-string field \<^verbatim>\<open>{x:.2f}\<close>; a negative value keeps its sign even when it rounds to zero.\<close>

definition fmt_2f :: "real \<Rightarrow> string" where
  "fmt_2f x =
     (let n = nat (round_half_even (\<bar>x\<bar> * 100))
      in (if x < 0 then ''-'' else '''') @ str_nat (n div 100) @ ''.'' @
         [digit_char (n div 10), digit_char n])"

subsection \<open>UsageTracker\<close>

record UsageTracker =
  daily_count :: int
  hourly_count :: int
  monthly_cost :: real
  last_reset_day :: date
  last_reset_hour :: nat
  monthly_reset :: stamp
  max_daily :: int
  max_hourly :: int
  monthly_budget :: real

text \<open>
  \<^verbatim>\<open>UsageTracker.__init__\<close>. The three attributes of time come from three separate readings
  of the clock. The limits are the values of \<^verbatim>\<open>int(os.getenv(...))\<close> and
  \<^verbatim>\<open>float(os.getenv(...))\<close>, taken as arguments (defaults 230, 10 and 5.00).
\<close>

definition init_tracker :: "datetime \<Rightarrow> datetime \<Rightarrow> datetime \<Rightarrow> int \<Rightarrow> int \<Rightarrow> real \<Rightarrow> UsageTracker" where
  "init_tracker now1 now2 now3 env_max_daily env_max_hourly env_monthly_budget =
     \<lparr>daily_count = 0, hourly_count = 0, monthly_cost = 0,
      last_reset_day = date_of now1, last_reset_hour = dt_hour now2,
      monthly_reset = AsDatetime (datetime_replace_day1 now3),
      max_daily = env_max_daily, max_hourly = env_max_hourly,
      monthly_budget = env_monthly_budget\<rparr>"

text \<open>
  The condition of the third \<^verbatim>\<open>if\<close> of \<^verbatim>\<open>reset_if_needed\<close>:
  \<^verbatim>\<open>current_month_start > self.monthly_reset.date() if isinstance(self.monthly_reset, datetime) else self.monthly_reset\<close>.
  A conditional expression binds weaker than a comparison, so this is
  \<^verbatim>\<open>(current_month_start > self.monthly_reset.date()) if isinstance(...) else self.monthly_reset\<close>:
  the comparison when \<^verbatim>\<open>monthly_reset\<close> is a datetime, and the truth value of the date
  itself when it is a date.
\<close>

definition monthly_reset_due :: "date \<Rightarrow> stamp \<Rightarrow> bool" where
  "monthly_reset_due current_month_start mr =
     (case mr of
        AsDatetime dt \<Rightarrow> date_gt current_month_start (date_of dt)
      | AsDate d \<Rightarrow> date_truthy d)"

definition reset_if_needed :: "datetime \<Rightarrow> UsageTracker \<Rightarrow> UsageTracker" where
  "reset_if_needed now s =
     (let s1 = (if date_gt (date_of now) (last_reset_day s)
                then s\<lparr>daily_count := 0, last_reset_day := date_of now\<rparr>
                else s);
          s2 = (if dt_hour now \<noteq> last_reset_hour s1
                then s1\<lparr>hourly_count := 0, last_reset_hour := dt_hour now\<rparr>
                else s1);
          current_month_start = date_replace_day1 (date_of now)
      in if monthly_reset_due current_month_start (monthly_reset s2)
         then s2\<lparr>monthly_cost := 0, monthly_reset := AsDate current_month_start\<rparr>
         else s2)"

text \<open>The three messages of denial, as the f-strings build them.\<close>

definition monthly_reason :: "UsageTracker \<Rightarrow> string" where
  "monthly_reason s = ''Monthly budget limit reached ($'' @ fmt_2f (monthly_budget s) @ '')''"

definition daily_reason :: "UsageTracker \<Rightarrow> string" where
  "daily_reason s = ''Daily request limit reached ('' @ str_int (max_daily s) @ '' requests)''"

definition hourly_reason :: "UsageTracker \<Rightarrow> string" where
  "hourly_reason s = ''Hourly request limit reached ('' @ str_int (max_hourly s) @ '' requests)''"

text \<open>\<^verbatim>\<open>can_make_request\<close>: the object after the call, and the returned pair.\<close>

definition can_make_request :: "datetime \<Rightarrow> UsageTracker \<Rightarrow> UsageTracker \<times> (bool \<times> string)" where
  "can_make_request now s =
     (let s' = reset_if_needed now s
      in if monthly_cost s' \<ge> monthly_budget s' then (s', (False, monthly_reason s'))
         else if daily_count s' \<ge> max_daily s' then (s', (False, daily_reason s'))
         else if hourly_count s' \<ge> max_hourly s' then (s', (False, hourly_reason s'))
         else (s', (True, '''')))"

text \<open>\<^verbatim>\<open>record_request\<close>; the rest of its body only logs.\<close>

definition record_request :: "UsageTracker \<Rightarrow> real \<Rightarrow> UsageTracker" where
  "record_request s cost =
     s\<lparr>daily_count := daily_count s + 1,
       hourly_count := hourly_count s + 1,
       monthly_cost := monthly_cost s + cost\<rparr>"

subsection \<open>Python values, JSON values and exceptions\<close>

text \<open>
  The values a wardrobe item holds under its keys (\<^verbatim>\<open>_format_wardrobe_for_llm\<close> stores
  the integer id, strings, and \<^verbatim>\<open>None\<close> for an absent attribute), and an item as the
  \<^verbatim>\<open>Dict\<close> it is: its entries, read through \<open>map_of\<close>.
\<close>

datatype pyval = PNone | PInt int | PStr string

type_synonym item = "(string \<times> pyval) list"

text \<open>How an f-string field prints a value: \<^verbatim>\<open>str(v)\<close>.\<close>

definition py_str :: "pyval \<Rightarrow> string" where
  "py_str v = (case v of PNone \<Rightarrow> ''None'' | PInt i \<Rightarrow> str_int i | PStr s \<Rightarrow> s)"

text \<open>\<^verbatim>\<open>d.get(k, default)\<close>\<close>

definition dict_get :: "('k \<rightharpoonup> 'v) \<Rightarrow> 'k \<Rightarrow> 'v \<Rightarrow> 'v" where
  "dict_get d k dflt = (case d k of None \<Rightarrow> dflt | Some v \<Rightarrow> v)"

text \<open>
  A parsed or returned JSON document. An object is a Python \<^verbatim>\<open>dict\<close> in insertion order.
\<close>

datatype json =
    JNull
  | JBool bool
  | JInt int
  | JFloat real
  | JStr string
  | JArr "json list"
  | JObj "(string \<times> json) list"

text \<open>
  \<^verbatim>\<open>d[k] = v\<close> on a dict in insertion order: an existing key keeps its place, a new key
  goes last.
\<close>

fun dict_set :: "string \<Rightarrow> json \<Rightarrow> (string \<times> json) list \<Rightarrow> (string \<times> json) list" where
  "dict_set k v [] = [(k, v)]"
| "dict_set k v (p # ps) = (if fst p = k then (k, v) # ps else p # dict_set k v ps)"

text \<open>
  The exceptions that leave the methods. \<open>RateLimitExceeded msg\<close> is the
  \<^verbatim>\<open>Exception(f"Rate limit exceeded: {reason}")\<close> of the usage gate; the others are raised
  by subscripting, attribute access, \<^verbatim>\<open>json.loads\<close> and the API client.
\<close>

datatype exn =
    RateLimitExceeded string
  | KeyError string
  | IndexError
  | AttributeError
  | TypeError
  | JSONDecodeError
  | APIError string

subsection \<open>UsageTracker.get_usage_stats\<close>

text \<open>
  The method resets at one reading of the clock, then builds the dict entry by entry; the last
  entry calls \<^verbatim>\<open>can_make_request\<close>, which resets again at a later reading. The counters in
  the snapshot are those read before that second reset.
\<close>

definition get_usage_stats :: "datetime \<Rightarrow> datetime \<Rightarrow> UsageTracker \<Rightarrow> UsageTracker \<times> (string \<times> json) list" where
  "get_usage_stats now_a now_b s =
     (let s1 = reset_if_needed now_a s;
          (s2, (allowed, reason)) = can_make_request now_b s1
      in (s2,
          [(''daily_requests'', JInt (daily_count s1)),
           (''daily_limit'', JInt (max_daily s1)),
           (''hourly_requests'', JInt (hourly_count s1)),
           (''hourly_limit'', JInt (max_hourly s1)),
           (''monthly_cost_usd'', JFloat (py_round (monthly_cost s1) 2)),
           (''monthly_budget_usd'', JFloat (monthly_budget s1)),
           (''remaining_budget_usd'', JFloat (py_round (monthly_budget s1 - monthly_cost s1) 2)),
           (''can_make_request'', JBool allowed)]))"

subsection \<open>LLMService\<close>

text \<open>An entry of \<^verbatim>\<open>MODEL_COSTS\<close>: the rates per 1000 tokens.\<close>

record rates =
  input_rate :: real
  output_rate :: real

definition MODEL_COSTS :: "(string \<times> rates) list" where
  "MODEL_COSTS =
     [(''gpt-3.5-turbo'', \<lparr>input_rate = 5 / 10000, output_rate = 15 / 10000\<rparr>),
      (''gpt-4'', \<lparr>input_rate = 3 / 100, output_rate = 6 / 100\<rparr>),
      (''gpt-4-turbo'', \<lparr>input_rate = 1 / 100, output_rate = 3 / 100\<rparr>)]"

text \<open>\<^verbatim>\<open>d[k]\<close> on a dict: \<^verbatim>\<open>KeyError\<close> when the key is absent.\<close>

definition dict_index :: "(string \<rightharpoonup> 'v) \<Rightarrow> string \<Rightarrow> exn + 'v" where
  "dict_index d k = (case d k of None \<Rightarrow> Inl (KeyError k) | Some v \<Rightarrow> Inr v)"

text \<open>
  \<^verbatim>\<open>_estimate_cost\<close>. The default \<^verbatim>\<open>self.MODEL_COSTS["gpt-3.5-turbo"]\<close> is evaluated
  before \<^verbatim>\<open>.get\<close> is called; \<^verbatim>\<open>/\<close> is true division.
\<close>

definition estimate_cost :: "string \<Rightarrow> int \<Rightarrow> int \<Rightarrow> exn + real" where
  "estimate_cost model input_tokens output_tokens =
     (case dict_index (map_of MODEL_COSTS) ''gpt-3.5-turbo'' of
        Inl e \<Rightarrow> Inl e
      | Inr dflt \<Rightarrow>
          (let costs = dict_get (map_of MODEL_COSTS) model dflt;
               input_cost = (of_int input_tokens / 1000) * input_rate costs;
               output_cost = (of_int output_tokens / 1000) * output_rate costs
           in Inr (input_cost + output_cost)))"

record LLMService =
  provider :: string
  model :: string
  usage_tracker :: UsageTracker

text \<open>The request sent to \<^verbatim>\<open>client.chat.completions.create\<close>.\<close>

record chat_request =
  req_model :: string
  req_messages :: "(string \<times> string) list"
  req_temperature :: real
  req_max_tokens :: nat
  req_response_format :: string

definition make_request :: "LLMService \<Rightarrow> string \<Rightarrow> chat_request" where
  "make_request self prompt =
     \<lparr>req_model = model self,
      req_messages =
        [(''system'', ''You are a professional fashion stylist. Always respond in valid JSON format.''),
         (''user'', prompt)],
      req_temperature = 7 / 10,
      req_max_tokens = 800,
      req_response_format = ''json_object''\<rparr>"

text \<open>
  What the endpoint answers: \<^verbatim>\<open>choices\<close> holds \<^verbatim>\<open>message.content\<close> of each choice
  (a string or \<^verbatim>\<open>None\<close>), \<^verbatim>\<open>usage\<close> is the token report or \<^verbatim>\<open>None\<close>.
\<close>

record token_usage =
  prompt_tokens :: int
  completion_tokens :: int

record completion =
  choices :: "string option list"
  usage :: "token_usage option"

text \<open>
  The body of the \<^verbatim>\<open>try\<close> block from the answer of the endpoint on. The handler logs and
  re-raises, so an exception leaves the method as it is. The result is the service after the
  call and the returned dict or the exception.

  \<open>json_loads\<close> stands for \<^verbatim>\<open>json.loads\<close>: \<open>None\<close> when it raises on the text.
\<close>

definition handle_response ::
  "(string \<Rightarrow> json option) \<Rightarrow> datetime \<Rightarrow> datetime \<Rightarrow> LLMService \<Rightarrow> completion \<Rightarrow> LLMService \<times> (exn + json)" where
  "handle_response json_loads now2 now3 self response =
     (case choices response of
        [] \<Rightarrow> (self, Inl IndexError)
      | result_text # _ \<Rightarrow>
        (case usage response of
           None \<Rightarrow> (self, Inl AttributeError)
         | Some u \<Rightarrow>
           (let input_tokens = prompt_tokens u;
                output_tokens = completion_tokens u
            in case estimate_cost (model self) input_tokens output_tokens of
                 Inl e \<Rightarrow> (self, Inl e)
               | Inr cost \<Rightarrow>
                 (let self2 = self\<lparr>usage_tracker := record_request (usage_tracker self) cost\<rparr>
                  in case result_text of
                       None \<Rightarrow> (self2, Inl TypeError)
                     | Some txt \<Rightarrow>
                       (case json_loads txt of
                          None \<Rightarrow> (self2, Inl JSONDecodeError)
                        | Some result \<Rightarrow>
                          (let (t3, stats) = get_usage_stats now2 now3 (usage_tracker self2);
                               self3 = self2\<lparr>usage_tracker := t3\<rparr>;
                               metadata = JObj
                                 [(''model'', JStr (model self)),
                                  (''cost_usd'', JFloat (py_round cost 4)),
                                  (''tokens_used'', JInt (input_tokens + output_tokens)),
                                  (''usage_stats'', JObj stats)]
                           in case result of
                                JObj kvs \<Rightarrow> (self3, Inr (JObj (dict_set ''metadata'' metadata kvs)))
                              | _ \<Rightarrow> (self3, Inl TypeError)))))))"

text \<open>
  \<^verbatim>\<open>generate_outfit_recommendation\<close>. Besides the service after the call and the outcome, the
  result lists the requests that were dispatched to the external endpoint during the call.

  \<open>build_prompt\<close> stands for \<^verbatim>\<open>self._build_outfit_prompt\<close>, which formats the items into
  the prompt text or raises on an item without \<^verbatim>\<open>'category'\<close> or \<^verbatim>\<open>'id'\<close>;
  \<open>client\<close> stands for the external endpoint, which answers or raises.
\<close>

definition generate_outfit_recommendation ::
  "(string \<Rightarrow> item list \<Rightarrow> exn + string) \<Rightarrow> (chat_request \<Rightarrow> exn + completion) \<Rightarrow>
   (string \<Rightarrow> json option) \<Rightarrow> datetime \<Rightarrow> datetime \<Rightarrow> datetime \<Rightarrow>
   LLMService \<Rightarrow> string \<Rightarrow> item list \<Rightarrow> LLMService \<times> chat_request list \<times> (exn + json)" where
  "generate_outfit_recommendation build_prompt client json_loads now1 now2 now3
       self user_request wardrobe_items =
     (let (t1, (can_proceed, reason)) = can_make_request now1 (usage_tracker self);
          self1 = self\<lparr>usage_tracker := t1\<rparr>
      in if \<not> can_proceed
         then (self1, [], Inl (RateLimitExceeded (''Rate limit exceeded: '' @ reason)))
         else
           (case build_prompt user_request wardrobe_items of
              Inl e \<Rightarrow> (self1, [], Inl e)
            | Inr prompt \<Rightarrow>
              (let req = make_request self1 prompt
               in case client req of
                    Inl e \<Rightarrow> (self1, [req], Inl e)
                  | Inr response \<Rightarrow>
                    (let (self', outcome) = handle_response json_loads now2 now3 self1 response
                     in (self', [req], outcome)))))"

subsection \<open>DemoLLMService\<close>

record selection =
  sel_id :: pyval
  sel_reason :: string

record outfit =
  outfit_top :: "selection option"
  outfit_bottom :: "selection option"
  description :: string
  styling_tips :: string
  outfit_confidence :: string

record demo_metadata =
  md_model :: string
  md_cost_usd :: real
  md_tokens_used :: int
  md_note :: string

record demo_response =
  resp_outfit :: outfit
  resp_alternatives :: "json list"
  resp_confidence :: string
  resp_metadata :: demo_metadata

text \<open>
  The comprehension \<^verbatim>\<open>[item for item in wardrobe_items if item['category'] in cats]\<close>:
  it subscripts every item in turn, so the first item without the key raises.
\<close>

fun items_in_categories :: "string list \<Rightarrow> item list \<Rightarrow> exn + item list" where
  "items_in_categories cats [] = Inr []"
| "items_in_categories cats (it # its) =
     (case dict_index (map_of it) ''category'' of
        Inl e \<Rightarrow> Inl e
      | Inr c \<Rightarrow>
        (case items_in_categories cats its of
           Inl e \<Rightarrow> Inl e
         | Inr rest \<Rightarrow> Inr (if c \<in> set (map PStr cats) then it # rest else rest)))"

text \<open>\<^verbatim>\<open>xs[0] if xs else None\<close>\<close>

definition first_or_none :: "'a list \<Rightarrow> 'a option" where
  "first_or_none xs = (case xs of [] \<Rightarrow> None | x # _ \<Rightarrow> Some x)"

text \<open>
  \<^verbatim>\<open>if selected:\<close> followed by the entry built from the selected item; \<^verbatim>\<open>None\<close> and an
  empty dict are false.
\<close>

definition top_entry :: "item option \<Rightarrow> exn + selection option" where
  "top_entry selected_top =
     (case selected_top of
        None \<Rightarrow> Inr None
      | Some t \<Rightarrow>
        if t = [] then Inr None
        else (case dict_index (map_of t) ''id'' of
                Inl e \<Rightarrow> Inl e
              | Inr i \<Rightarrow> Inr (Some
                  \<lparr>sel_id = i,
                   sel_reason = ''Perfect '' @ py_str (dict_get (map_of t) ''style'' (PStr ''casual''))
                     @ '' '' @ py_str (dict_get (map_of t) ''clothing_type'' (PStr ''top''))
                     @ '' for this occasion''\<rparr>)))"

definition bottom_entry :: "item option \<Rightarrow> exn + selection option" where
  "bottom_entry selected_bottom =
     (case selected_bottom of
        None \<Rightarrow> Inr None
      | Some b \<Rightarrow>
        if b = [] then Inr None
        else (case dict_index (map_of b) ''id'' of
                Inl e \<Rightarrow> Inl e
              | Inr i \<Rightarrow> Inr (Some
                  \<lparr>sel_id = i,
                   sel_reason = ''Comfortable '' @ py_str (dict_get (map_of b) ''color'' (PStr []))
                     @ '' '' @ py_str (dict_get (map_of b) ''clothing_type'' (PStr ''bottom''))\<rparr>)))"

text \<open>\<^verbatim>\<open>DemoLLMService.generate_outfit_recommendation\<close>\<close>

definition demo_generate_outfit_recommendation :: "string \<Rightarrow> item list \<Rightarrow> exn + demo_response" where
  "demo_generate_outfit_recommendation user_request wardrobe_items =
     (case items_in_categories [''shirt'', ''hoodie''] wardrobe_items of
        Inl e \<Rightarrow> Inl e
      | Inr tops \<Rightarrow>
        (case items_in_categories [''pants'', ''shorts''] wardrobe_items of
           Inl e \<Rightarrow> Inl e
         | Inr bottoms \<Rightarrow>
           (let selected_top = first_or_none tops;
                selected_bottom = first_or_none bottoms
            in case top_entry selected_top of
                 Inl e \<Rightarrow> Inl e
               | Inr top_sel \<Rightarrow>
                 (case bottom_entry selected_bottom of
                    Inl e \<Rightarrow> Inl e
                  | Inr bottom_sel \<Rightarrow>
                    Inr \<lparr>resp_outfit =
                           \<lparr>outfit_top = top_sel, outfit_bottom = bottom_sel,
                            description = ''A great outfit for '' @ user_request,
                            styling_tips = ''Keep it simple and comfortable. Accessorize minimally.'',
                            outfit_confidence = ''medium''\<rparr>,
                         resp_alternatives = [],
                         resp_confidence = ''medium'',
                         resp_metadata =
                           \<lparr>md_model = ''demo-mode'', md_cost_usd = 0, md_tokens_used = 0,
                            md_note = ''This is a demo response. Add OpenAI credits to use real AI recommendations.''\<rparr>\<rparr>))))"

subsection \<open>Runs of calls\<close>

text \<open>A run of \<^verbatim>\<open>record_request\<close> calls, one per cost, in order.\<close>

definition record_requests :: "UsageTracker \<Rightarrow> real list \<Rightarrow> UsageTracker" where
  "record_requests s costs = foldl record_request s costs"

subsection \<open>Concrete trackers and clock readings\<close>

definition jan1_10h :: datetime where
  "jan1_10h = \<lparr>dt_year = 2024, dt_month = 1, dt_day = 1, dt_hour = 10\<rparr>"

text \<open>A tracker that has reached all three limits at once.\<close>

definition spent_tracker :: UsageTracker where
  "spent_tracker =
     \<lparr>daily_count = 230, hourly_count = 10, monthly_cost = 5,
      last_reset_day = \<lparr>year = 2024, month = 1, day = 1\<rparr>, last_reset_hour = 10,
      monthly_reset = AsDatetime \<lparr>dt_year = 2024, dt_month = 1, dt_day = 1, dt_hour = 9\<rparr>,
      max_daily = 230, max_hourly = 10, monthly_budget = 5\<rparr>"

text \<open>A tracker as the constructor leaves it, with an hourly limit of 3.\<close>

definition fresh_tracker :: UsageTracker where
  "fresh_tracker = init_tracker jan1_10h jan1_10h jan1_10h 230 3 5"

definition spent_service :: LLMService where
  "spent_service =
     \<lparr>provider = ''openai'', model = ''gpt-3.5-turbo'', usage_tracker = spent_tracker\<rparr>"

definition fresh_service :: LLMService where
  "fresh_service =
     \<lparr>provider = ''openai'', model = ''gpt-3.5-turbo'', usage_tracker = fresh_tracker\<rparr>"

text \<open>An answer of the endpoint that reports its tokens and whose text is not JSON.\<close>

definition bad_json_completion :: completion where
  "bad_json_completion =
     \<lparr>choices = [Some ''not json''],
      usage = Some \<lparr>prompt_tokens = 1000, completion_tokens = 1000\<rparr>\<rparr>"

definition feb1_9h :: datetime where
  "feb1_9h = \<lparr>dt_year = 2024, dt_month = 2, dt_day = 1, dt_hour = 9\<rparr>"

definition jan3_10h :: datetime where
  "jan3_10h = \<lparr>dt_year = 2024, dt_month = 1, dt_day = 3, dt_hour = 10\<rparr>"

text \<open>
  A tracker constructed on 1 January, checked on 1 February at 9 (the month has advanced, the
  monthly reset fires), with one request of cost 6 recorded after that check.
\<close>

definition february_tracker :: UsageTracker where
  "february_tracker = record_request (reset_if_needed feb1_9h fresh_tracker) 6"

text \<open>A tracker constructed on 1 January at 10 with three requests recorded in that hour.\<close>

definition busy_tracker :: UsageTracker where
  "busy_tracker = record_requests fresh_tracker [1 / 10, 1 / 10, 1 / 10]"

text \<open>
  The roles of the demo service in the words of its description: a top is an item whose
  category is shirt or hoodie, a bottom one whose category is pants or shorts.
\<close>

definition is_top :: "item \<Rightarrow> bool" where
  "is_top it \<longleftrightarrow>
     map_of it ''category'' = Some (PStr ''shirt'') \<or>
     map_of it ''category'' = Some (PStr ''hoodie'')"

definition is_bottom :: "item \<Rightarrow> bool" where
  "is_bottom it \<longleftrightarrow>
     map_of it ''category'' = Some (PStr ''pants'') \<or>
     map_of it ''category'' = Some (PStr ''shorts'')"

definition shirt_item :: item where
  "shirt_item =
     [(''id'', PInt 1), (''category'', PStr ''shirt''), (''style'', PNone),
      (''clothing_type'', PStr ''t-shirt'')]"

definition pants_item :: item where
  "pants_item = [(''id'', PInt 2), (''category'', PStr ''pants''), (''color'', PStr ''blue'')]"

section \<open>Properties\<close>

subsection \<open>Basic facts\<close>

lemma reset_if_needed_limits:
  "max_daily (reset_if_needed now s) = max_daily s"
  "max_hourly (reset_if_needed now s) = max_hourly s"
  "monthly_budget (reset_if_needed now s) = monthly_budget s"
  by (simp_all add: reset_if_needed_def Let_def)

lemma can_make_request_state: "fst (can_make_request now s) = reset_if_needed now s"
  by (simp add: can_make_request_def Let_def)

lemma reasons_differ:
  "monthly_reason a \<noteq> daily_reason b" "monthly_reason a \<noteq> hourly_reason b"
  "daily_reason a \<noteq> hourly_reason b" "monthly_reason a \<noteq> []" "daily_reason a \<noteq> []"
  "hourly_reason a \<noteq> []"
  by (simp_all add: monthly_reason_def daily_reason_def hourly_reason_def)

lemma fmt_2f_5: "fmt_2f 5 = ''5.00''"
  by code_simp

subsection \<open>The usage gate\<close>

text \<open>
  C1. \<^verbatim>\<open>can_make_request\<close> decides on the tracker as it stands after the reset it performs
  first (\<open>s'\<close>, the state it returns). On that state the limits are tried in the order monthly
  budget, daily, hourly: a monthly cost at or over the budget gives the monthly reason, whatever
  the daily and hourly counts are; otherwise a daily count at or over its limit gives the daily
  reason; otherwise an hourly count at or over its limit gives the hourly reason; otherwise the
  request is allowed with the empty reason. The three reasons are different non-empty strings,
  so a denial carries exactly one of them, and the reason is empty exactly when the request is
  allowed.
\<close>

theorem can_make_request_precedence:
  "can_make_request now s = (s', ok, reason) \<Longrightarrow>
     s' = reset_if_needed now s \<and>
     (monthly_cost s' \<ge> monthly_budget s' \<longrightarrow> \<not> ok \<and> reason = monthly_reason s') \<and>
     (monthly_cost s' < monthly_budget s' \<and> daily_count s' \<ge> max_daily s' \<longrightarrow>
        \<not> ok \<and> reason = daily_reason s') \<and>
     (monthly_cost s' < monthly_budget s' \<and> daily_count s' < max_daily s' \<and>
      hourly_count s' \<ge> max_hourly s' \<longrightarrow> \<not> ok \<and> reason = hourly_reason s') \<and>
     (monthly_cost s' < monthly_budget s' \<and> daily_count s' < max_daily s' \<and>
      hourly_count s' < max_hourly s' \<longrightarrow> ok \<and> reason = []) \<and>
     (ok \<longleftrightarrow> reason = []) \<and>
     distinct [monthly_reason s', daily_reason s', hourly_reason s', []]"
  by (auto simp: can_make_request_def Let_def reasons_differ split: if_splits)

lemma spent_tracker_denied:
  "can_make_request jan1_10h spent_tracker =
     (spent_tracker, False, ''Monthly budget limit reached ($5.00)'')"
  by (simp add: can_make_request_def reset_if_needed_def jan1_10h_def spent_tracker_def Let_def
      date_gt_def date_of_def date_replace_day1_def monthly_reset_due_def monthly_reason_def
      fmt_2f_5)

theorem can_make_request_precedence_witness:
  "can_make_request jan1_10h spent_tracker =
     (spent_tracker, False, ''Monthly budget limit reached ($5.00)'') \<and>
   monthly_cost spent_tracker \<ge> monthly_budget spent_tracker \<and>
   daily_count spent_tracker \<ge> max_daily spent_tracker \<and>
   hourly_count spent_tracker \<ge> max_hourly spent_tracker \<and>
   monthly_reason spent_tracker = ''Monthly budget limit reached ($5.00)''"
  using can_make_request_precedence [OF spent_tracker_denied] spent_tracker_denied
  by (simp add: spent_tracker_def)

subsection \<open>Recording\<close>

lemma record_requests_fields:
  "monthly_cost (record_requests s costs) = monthly_cost s + sum_list costs"
  "daily_count (record_requests s costs) = daily_count s + int (length costs)"
  "hourly_count (record_requests s costs) = hourly_count s + int (length costs)"
  unfolding record_requests_def
  by (induction costs arbitrary: s) (simp_all add: record_request_def)

lemma record_requests_frame:
  "last_reset_day (record_requests s costs) = last_reset_day s"
  "last_reset_hour (record_requests s costs) = last_reset_hour s"
  "monthly_reset (record_requests s costs) = monthly_reset s"
  "max_daily (record_requests s costs) = max_daily s"
  "max_hourly (record_requests s costs) = max_hourly s"
  "monthly_budget (record_requests s costs) = monthly_budget s"
  unfolding record_requests_def
  by (induction costs arbitrary: s) (simp_all add: record_request_def)

text \<open>
  C7. A run of \<^verbatim>\<open>record_request\<close> calls with nothing in between (so no reset in between)
  adds the sum of its costs to \<^verbatim>\<open>monthly_cost\<close>; started right after a monthly reset, where
  \<^verbatim>\<open>monthly_cost\<close> is 0, the monthly cost is that sum. Every call adds exactly 1 to
  \<^verbatim>\<open>daily_count\<close> and to \<^verbatim>\<open>hourly_count\<close>, so a run of \<open>n\<close> calls adds \<open>n\<close>. This holds
  for costs of any sign. Costs are exact reals here, so the sum has no rounding.
\<close>

theorem monthly_cost_is_sum_of_recorded_costs:
  "monthly_cost (record_requests s costs) = monthly_cost s + sum_list costs \<and>
   monthly_cost (record_requests (s\<lparr>monthly_cost := 0\<rparr>) costs) = sum_list costs \<and>
   daily_count (record_requests s costs) = daily_count s + int (length costs) \<and>
   hourly_count (record_requests s costs) = hourly_count s + int (length costs) \<and>
   daily_count (record_request s cost) = daily_count s + 1 \<and>
   hourly_count (record_request s cost) = hourly_count s + 1 \<and>
   record_requests s (costs @ [cost]) = record_request (record_requests s costs) cost"
  by (simp add: record_requests_fields) (simp add: record_requests_def record_request_def)

theorem monthly_cost_is_sum_of_recorded_costs_witness:
  "monthly_cost (record_requests (spent_tracker\<lparr>monthly_cost := 0\<rparr>) [2 / 5, 2 / 5, 1 / 5]) = 1 \<and>
   daily_count (record_requests spent_tracker [2 / 5, 2 / 5, 1 / 5]) = 233 \<and>
   hourly_count (record_requests spent_tracker [2 / 5, 2 / 5, 1 / 5]) = 13"
  using monthly_cost_is_sum_of_recorded_costs [of spent_tracker "[2 / 5, 2 / 5, 1 / 5]" 0]
  by (simp add: spent_tracker_def)

text \<open>
  C10. \<^verbatim>\<open>record_request\<close> has no error branch and no condition: whatever the state and the
  cost, it adds 1 to both counts and the cost to \<^verbatim>\<open>monthly_cost\<close>, and leaves the limits as
  they are. So a count already at its limit goes past it, a monthly cost already at the budget
  goes past it on a positive cost, and a negative cost lowers the monthly cost.
\<close>

theorem record_request_unconditional:
  "daily_count (record_request s cost) = daily_count s + 1 \<and>
   hourly_count (record_request s cost) = hourly_count s + 1 \<and>
   monthly_cost (record_request s cost) = monthly_cost s + cost \<and>
   max_daily (record_request s cost) = max_daily s \<and>
   max_hourly (record_request s cost) = max_hourly s \<and>
   monthly_budget (record_request s cost) = monthly_budget s \<and>
   (daily_count s \<ge> max_daily s \<longrightarrow> daily_count (record_request s cost) > max_daily s) \<and>
   (hourly_count s \<ge> max_hourly s \<longrightarrow> hourly_count (record_request s cost) > max_hourly s) \<and>
   (monthly_cost s \<ge> monthly_budget s \<and> cost > 0 \<longrightarrow>
      monthly_cost (record_request s cost) > monthly_budget s) \<and>
   (cost < 0 \<longrightarrow> monthly_cost (record_request s cost) < monthly_cost s)"
  by (simp add: record_request_def)

theorem record_request_unconditional_witness:
  "daily_count spent_tracker \<ge> max_daily spent_tracker \<and>
   hourly_count spent_tracker \<ge> max_hourly spent_tracker \<and>
   monthly_cost spent_tracker \<ge> monthly_budget spent_tracker \<and>
   daily_count (record_request spent_tracker 2) = 231 \<and>
   hourly_count (record_request spent_tracker 2) = 11 \<and>
   monthly_cost (record_request spent_tracker 2) = 7 \<and>
   monthly_cost (record_request spent_tracker (- 2)) = 3 \<and>
   monthly_cost (record_request spent_tracker (- 2)) < monthly_cost spent_tracker"
  using record_request_unconditional [of spent_tracker 2]
    record_request_unconditional [of spent_tracker "- 2"]
  by (simp add: spent_tracker_def)

subsection \<open>The hourly limit within one window\<close>

lemma reset_if_needed_same_hour:
  "dt_hour now = last_reset_hour t \<Longrightarrow> hourly_count (reset_if_needed now t) = hourly_count t"
  by (simp add: reset_if_needed_def Let_def)

lemma hourly_reason_cong: "max_hourly a = max_hourly b \<Longrightarrow> hourly_reason a = hourly_reason b"
  by (simp add: hourly_reason_def)


text \<open>
  C3. Take a tracker at the start of an hour window (\<^verbatim>\<open>hourly_count\<close> 0), record a run of
  requests, and ask \<^verbatim>\<open>can_make_request\<close> while the hour of the clock is still the recorded
  \<^verbatim>\<open>last_reset_hour\<close>. Let \<open>s'\<close> be the tracker the decision reads (after the reset it
  performs), and let it have monthly and daily headroom. Then after exactly \<^verbatim>\<open>max_hourly\<close>
  records the answer is the hourly denial, and after fewer records it is \<open>(True, "")\<close>.
\<close>

theorem hourly_limit_after_max_hourly_records:
  assumes fresh: "hourly_count s = 0"
    and same_hour: "dt_hour now = last_reset_hour s"
    and seen: "s' = reset_if_needed now (record_requests s costs)"
    and headroom: "monthly_cost s' < monthly_budget s'" "daily_count s' < max_daily s'"
  shows "(int (length costs) = max_hourly s \<longrightarrow>
           can_make_request now (record_requests s costs) = (s', False, hourly_reason s)) \<and>
         (int (length costs) < max_hourly s \<longrightarrow>
           can_make_request now (record_requests s costs) = (s', True, []))"
proof -
  let ?t = "record_requests s costs"
  have "dt_hour now = last_reset_hour ?t"
    using same_hour by (simp add: record_requests_frame)
  then have "hourly_count s' = hourly_count ?t"
    unfolding seen by (rule reset_if_needed_same_hour)
  then have count: "hourly_count s' = int (length costs)"
    using fresh by (simp add: record_requests_fields)
  have limit: "max_hourly s' = max_hourly s"
    unfolding seen by (simp add: reset_if_needed_limits record_requests_frame)
  have reason: "hourly_reason s' = hourly_reason s"
    using limit by (rule hourly_reason_cong)
  show ?thesis
    using headroom count limit reason seen
    by (simp add: can_make_request_def Let_def)
qed

lemma fresh_two: "reset_if_needed jan1_10h (record_requests fresh_tracker [1/10, 1/10]) =
   fresh_tracker\<lparr>daily_count := 2, hourly_count := 2, monthly_cost := 1/5\<rparr>"
  by (simp add: fresh_tracker_def init_tracker_def record_requests_def record_request_def
      reset_if_needed_def Let_def jan1_10h_def date_of_def date_gt_def date_replace_day1_def
      datetime_replace_day1_def monthly_reset_due_def)

lemma fresh_three: "reset_if_needed jan1_10h (record_requests fresh_tracker [1/10, 1/10, 1/10]) =
   fresh_tracker\<lparr>daily_count := 3, hourly_count := 3, monthly_cost := 3/10\<rparr>"
  by (simp add: fresh_tracker_def init_tracker_def record_requests_def record_request_def
      reset_if_needed_def Let_def jan1_10h_def date_of_def date_gt_def date_replace_day1_def
      datetime_replace_day1_def monthly_reset_due_def)

lemma str_int_3: "str_int 3 = ''3''"
  by code_simp

theorem hourly_limit_after_max_hourly_records_witness:
  "hourly_count fresh_tracker = 0 \<and> dt_hour jan1_10h = last_reset_hour fresh_tracker \<and>
   max_hourly fresh_tracker = 3 \<and>
   can_make_request jan1_10h (record_requests fresh_tracker [1/10, 1/10, 1/10]) =
     (fresh_tracker\<lparr>daily_count := 3, hourly_count := 3, monthly_cost := 3/10\<rparr>, False,
      ''Hourly request limit reached (3 requests)'') \<and>
   can_make_request jan1_10h (record_requests fresh_tracker [1/10, 1/10]) =
     (fresh_tracker\<lparr>daily_count := 2, hourly_count := 2, monthly_cost := 1/5\<rparr>, True, [])"
  using hourly_limit_after_max_hourly_records
      [of fresh_tracker jan1_10h _ "[1/10, 1/10, 1/10]", OF _ _ fresh_three [symmetric]]
    hourly_limit_after_max_hourly_records
      [of fresh_tracker jan1_10h _ "[1/10, 1/10]", OF _ _ fresh_two [symmetric]]
  by (simp add: fresh_tracker_def init_tracker_def jan1_10h_def hourly_reason_def str_int_3)

subsection \<open>Cost estimate\<close>

lemma estimate_cost_value:
  "estimate_cost m i o' =
     Inr (of_int i / 1000 * input_rate (dict_get (map_of MODEL_COSTS) m \<lparr>input_rate = 5 / 10000, output_rate = 15 / 10000\<rparr>)
        + of_int o' / 1000 * output_rate (dict_get (map_of MODEL_COSTS) m \<lparr>input_rate = 5 / 10000, output_rate = 15 / 10000\<rparr>))"
  by (simp add: estimate_cost_def dict_index_def MODEL_COSTS_def Let_def)

text \<open>
  C8. For every model identifier and all token counts the estimate never raises and is
  \<open>input_tokens / 1000 * input_rate + output_tokens / 1000 * output_rate\<close>, where the rates
  are the entry of \<^verbatim>\<open>MODEL_COSTS\<close> for the model, or the entry of the default model
  \<^verbatim>\<open>gpt-3.5-turbo\<close> when the model has no entry. With the rates 0.0005 and 0.0015 the
  estimate for 1000 and 1000 tokens is 0.002. For non-negative token counts the estimate is not
  negative. The estimate is a function of its arguments alone. Numbers are exact reals.
\<close>

theorem estimate_cost_formula:
  "\<exists>r. (map_of MODEL_COSTS m = Some r \<or>
         (map_of MODEL_COSTS m = None \<and> map_of MODEL_COSTS ''gpt-3.5-turbo'' = Some r)) \<and>
        estimate_cost m i o' =
          Inr (of_int i / 1000 * input_rate r + of_int o' / 1000 * output_rate r) \<and>
        (input_rate r = 5 / 10000 \<and> output_rate r = 15 / 10000 \<longrightarrow>
           estimate_cost m 1000 1000 = Inr (2 / 1000)) \<and>
        (0 \<le> i \<and> 0 \<le> o' \<longrightarrow>
           0 \<le> of_int i / 1000 * input_rate r + of_int o' / 1000 * output_rate r)"
  by (cases "map_of MODEL_COSTS m")
     (auto simp: estimate_cost_def dict_index_def dict_get_def MODEL_COSTS_def Let_def
           split: if_splits)

theorem estimate_cost_formula_witness:
  "estimate_cost ''gpt-3.5-turbo'' 1000 1000 = Inr (2 / 1000) \<and>
   estimate_cost ''no-such-model'' 1000 1000 = Inr (2 / 1000) \<and>
   estimate_cost ''gpt-4'' 2000 500 = Inr (9 / 100)"
  using estimate_cost_formula [of "''gpt-3.5-turbo''" 1000 1000]
    estimate_cost_formula [of "''no-such-model''" 1000 1000]
    estimate_cost_formula [of "''gpt-4''" 2000 500]
  by (auto simp: MODEL_COSTS_def)

subsection \<open>The gated request\<close>

text \<open>
  C5. When \<^verbatim>\<open>can_make_request\<close> denies, \<^verbatim>\<open>generate_outfit_recommendation\<close> raises the
  rate-limit exception with the reason, no request is dispatched to the endpoint, and the tracker
  it leaves is the tracker after \<^verbatim>\<open>reset_if_needed\<close> and nothing else: each of the two
  counts and the monthly cost is what it was before the call, or 0 where the reset fired.
  This holds whatever the prompt builder, the endpoint and the JSON parser would have done.
\<close>

theorem denied_request_dispatches_nothing:
  assumes denied: "can_make_request now1 (usage_tracker self) = (t1, False, reason)"
  shows "generate_outfit_recommendation build_prompt client json_loads now1 now2 now3
             self user_request wardrobe_items =
           (self\<lparr>usage_tracker := t1\<rparr>, [],
            Inl (RateLimitExceeded (''Rate limit exceeded: '' @ reason))) \<and>
         t1 = reset_if_needed now1 (usage_tracker self) \<and>
         (daily_count t1 = daily_count (usage_tracker self) \<or> daily_count t1 = 0) \<and>
         (hourly_count t1 = hourly_count (usage_tracker self) \<or> hourly_count t1 = 0) \<and>
         (monthly_cost t1 = monthly_cost (usage_tracker self) \<or> monthly_cost t1 = 0)"
proof -
  have t1: "t1 = reset_if_needed now1 (usage_tracker self)"
    using can_make_request_state [of now1 "usage_tracker self"] denied by simp
  have "generate_outfit_recommendation build_prompt client json_loads now1 now2 now3
             self user_request wardrobe_items =
           (self\<lparr>usage_tracker := t1\<rparr>, [],
            Inl (RateLimitExceeded (''Rate limit exceeded: '' @ reason)))"
    using denied by (simp add: generate_outfit_recommendation_def)
  moreover have "(daily_count t1 = daily_count (usage_tracker self) \<or> daily_count t1 = 0) \<and>
         (hourly_count t1 = hourly_count (usage_tracker self) \<or> hourly_count t1 = 0) \<and>
         (monthly_cost t1 = monthly_cost (usage_tracker self) \<or> monthly_cost t1 = 0)"
    unfolding t1 by (simp add: reset_if_needed_def Let_def)
  ultimately show ?thesis using t1 by simp
qed

theorem denied_request_dispatches_nothing_witness:
  "can_make_request jan1_10h (usage_tracker spent_service) =
     (spent_tracker, False, ''Monthly budget limit reached ($5.00)'') \<and>
   generate_outfit_recommendation (\<lambda>u ws. Inr ''prompt'') (\<lambda>r. Inr bad_json_completion)
       (\<lambda>t. None) jan1_10h jan1_10h jan1_10h spent_service ''casual friday'' [] =
     (spent_service, [],
      Inl (RateLimitExceeded ''Rate limit exceeded: Monthly budget limit reached ($5.00)''))"
proof -
  have d: "can_make_request jan1_10h (usage_tracker spent_service) =
     (spent_tracker, False, ''Monthly budget limit reached ($5.00)'')"
    using spent_tracker_denied by (simp add: spent_service_def)
  show ?thesis
    using denied_request_dispatches_nothing [OF d, of "\<lambda>u ws. Inr ''prompt''"
        "\<lambda>r. Inr bad_json_completion" "\<lambda>t. None" jan1_10h jan1_10h "''casual friday''" "[]"] d
    by (simp add: spent_service_def)
qed

text \<open>
  C6. When the gate allows, the prompt is built, the endpoint answers with at least one choice
  whose content is a text and with a token report, and \<^verbatim>\<open>json.loads\<close> raises on that
  text, then the call raises that exception, exactly one request was dispatched, and the tracker
  holds the recorded request: both counts one higher and the monthly cost higher by the estimate
  for the reported tokens.
\<close>

theorem cost_recorded_before_parsing:
  assumes allowed: "can_make_request now1 (usage_tracker self) = (t1, True, reason)"
    and prompt: "build_prompt user_request wardrobe_items = Inr prompt"
    and answered: "client (make_request (self\<lparr>usage_tracker := t1\<rparr>) prompt) = Inr response"
    and content: "choices response = Some txt # others"
    and reported: "usage response = Some u"
    and malformed: "json_loads txt = None"
  shows "\<exists>cost t2.
           estimate_cost (model self) (prompt_tokens u) (completion_tokens u) = Inr cost \<and>
           t2 = record_request t1 cost \<and>
           generate_outfit_recommendation build_prompt client json_loads now1 now2 now3
               self user_request wardrobe_items =
             (self\<lparr>usage_tracker := t2\<rparr>,
              [make_request (self\<lparr>usage_tracker := t1\<rparr>) prompt], Inl JSONDecodeError) \<and>
           daily_count t2 = daily_count t1 + 1 \<and>
           hourly_count t2 = hourly_count t1 + 1 \<and>
           monthly_cost t2 = monthly_cost t1 + cost"
proof -
  obtain cost where cost: "estimate_cost (model self) (prompt_tokens u) (completion_tokens u) = Inr cost"
    using estimate_cost_value by blast
  let ?self1 = "self\<lparr>usage_tracker := t1\<rparr>"
  have h: "handle_response json_loads now2 now3 ?self1 response =
      (self\<lparr>usage_tracker := record_request t1 cost\<rparr>, Inl JSONDecodeError)"
    using content reported malformed cost
    by (simp add: handle_response_def Let_def)
  have "generate_outfit_recommendation build_prompt client json_loads now1 now2 now3
               self user_request wardrobe_items =
             (self\<lparr>usage_tracker := record_request t1 cost\<rparr>,
              [make_request ?self1 prompt], Inl JSONDecodeError)"
    using allowed prompt answered h
    by (simp add: generate_outfit_recommendation_def Let_def)
  then show ?thesis
    using cost by (simp add: record_request_def)
qed

lemma fresh_allowed: "can_make_request jan1_10h (usage_tracker fresh_service) = (fresh_tracker, True, [])"
  by (simp add: fresh_service_def fresh_tracker_def init_tracker_def can_make_request_def
      reset_if_needed_def Let_def jan1_10h_def date_of_def date_gt_def date_replace_day1_def
      datetime_replace_day1_def monthly_reset_due_def)

theorem cost_recorded_before_parsing_witness:
  "can_make_request jan1_10h (usage_tracker fresh_service) = (fresh_tracker, True, []) \<and>
   generate_outfit_recommendation (\<lambda>u ws. Inr ''prompt'') (\<lambda>r. Inr bad_json_completion)
       (\<lambda>t. None) jan1_10h jan1_10h jan1_10h fresh_service ''casual friday'' [] =
     (fresh_service\<lparr>usage_tracker :=
        fresh_tracker\<lparr>daily_count := 1, hourly_count := 1, monthly_cost := 2 / 1000\<rparr>\<rparr>,
      [make_request fresh_service ''prompt''], Inl JSONDecodeError)"
proof -
  have e: "estimate_cost (model fresh_service) 1000 1000 = Inr (2 / 1000)"
    by (simp add: fresh_service_def estimate_cost_value dict_get_def MODEL_COSTS_def)
  have same: "fresh_service\<lparr>usage_tracker := fresh_tracker\<rparr> = fresh_service"
    by (simp add: fresh_service_def)
  obtain cost t2 where
    c: "estimate_cost (model fresh_service) 1000 1000 = Inr cost"
    and t2: "t2 = record_request fresh_tracker cost"
    and g: "generate_outfit_recommendation (\<lambda>u ws. Inr ''prompt'') (\<lambda>r. Inr bad_json_completion)
       (\<lambda>t. None) jan1_10h jan1_10h jan1_10h fresh_service ''casual friday'' [] =
     (fresh_service\<lparr>usage_tracker := t2\<rparr>,
      [make_request (fresh_service\<lparr>usage_tracker := fresh_tracker\<rparr>) ''prompt''],
      Inl JSONDecodeError)"
    using cost_recorded_before_parsing [OF fresh_allowed, of "\<lambda>u ws. Inr ''prompt''"
        "''casual friday''" "[]" "''prompt''" "\<lambda>r. Inr bad_json_completion" bad_json_completion
        "''not json''" "[]" "\<lparr>prompt_tokens = 1000, completion_tokens = 1000\<rparr>" "\<lambda>t. None"
        jan1_10h jan1_10h]
    by (auto simp: bad_json_completion_def)
  have "cost = 2 / 1000"
    using c e by simp
  then have "t2 = fresh_tracker\<lparr>daily_count := 1, hourly_count := 1, monthly_cost := 2 / 1000\<rparr>"
    using t2 by (simp add: record_request_def fresh_tracker_def init_tracker_def)
  then show ?thesis
    using g fresh_allowed same by simp
qed

subsection \<open>Resets at calendar boundaries\<close>

lemmas time_defs = jan1_10h_def feb1_9h_def jan3_10h_def date_of_def date_gt_def
  date_replace_day1_def datetime_replace_day1_def monthly_reset_due_def date_truthy_def

text \<open>
  While \<^verbatim>\<open>monthly_reset\<close> is the datetime of the constructor, the monthly cost is zeroed
  exactly when the first day of the current month is after it. Once it is a plain date, that is
  after the first monthly reset, every call zeroes the monthly cost.
\<close>

lemma monthly_reset_always_after_first:
  "monthly_reset s = AsDate d \<Longrightarrow> monthly_cost (reset_if_needed now s) = 0"
  by (simp add: reset_if_needed_def Let_def monthly_reset_due_def date_truthy_def)

lemma monthly_reset_iff_when_datetime:
  "monthly_reset s = AsDatetime dt \<Longrightarrow>
   monthly_cost (reset_if_needed now s) =
     (if date_gt (date_replace_day1 (date_of now)) (date_of dt) then 0 else monthly_cost s)"
  by (simp add: reset_if_needed_def Let_def monthly_reset_due_def)

text \<open>
  C2. The behaviour at the input where the code departs from the claim. The tracker
  \<open>february_tracker\<close> had its monthly reset on 1 February, so its \<^verbatim>\<open>monthly_reset\<close> is the
  date 2024-02-01, and a cost of 6 was recorded since, over the budget of 5. A check in the same
  hour of the same day, with the month not advanced, zeroes the monthly cost all the same, and
  the request is allowed.
\<close>

theorem monthly_cost_zeroed_within_month:
  "monthly_reset february_tracker = AsDate \<lparr>year = 2024, month = 2, day = 1\<rparr> \<and>
   monthly_cost february_tracker = 6 \<and>
   monthly_budget february_tracker = 5 \<and>
   \<not> date_gt (date_replace_day1 (date_of feb1_9h)) \<lparr>year = 2024, month = 2, day = 1\<rparr> \<and>
   monthly_cost (reset_if_needed feb1_9h february_tracker) = 0 \<and>
   snd (can_make_request feb1_9h february_tracker) = (True, [])"
  by (simp add: february_tracker_def fresh_tracker_def init_tracker_def record_request_def
      can_make_request_def reset_if_needed_def Let_def time_defs)

text \<open>
  C4. The behaviour at the input where the code departs from the claim. The tracker
  \<open>busy_tracker\<close> recorded three requests on 1 January in the hour of 10, its hourly limit. It
  is next checked on 3 January, again in the hour of 10: the day has changed, so the daily count
  is zeroed, but the hour number equals \<^verbatim>\<open>last_reset_hour\<close>, so the hourly count keeps the 3
  of two days before and the request is denied on the hourly limit.
\<close>

theorem hourly_count_survives_day_change:
  "last_reset_day busy_tracker = \<lparr>year = 2024, month = 1, day = 1\<rparr> \<and>
   last_reset_hour busy_tracker = 10 \<and>
   date_gt (date_of jan3_10h) (last_reset_day busy_tracker) \<and>
   daily_count (reset_if_needed jan3_10h busy_tracker) = 0 \<and>
   hourly_count (reset_if_needed jan3_10h busy_tracker) = 3 \<and>
   snd (can_make_request jan3_10h busy_tracker) =
     (False, ''Hourly request limit reached (3 requests)'')"
  by (simp add: busy_tracker_def fresh_tracker_def init_tracker_def record_requests_def
       record_request_def can_make_request_def reset_if_needed_def Let_def time_defs
       hourly_reason_def str_int_3)

subsection \<open>The demo service\<close>

lemma items_in_categories_filter:
  "\<forall>it \<in> set items. map_of it ''category'' \<noteq> None \<Longrightarrow>
   items_in_categories cats items =
     Inr (filter (\<lambda>it. \<exists>c \<in> set cats. map_of it ''category'' = Some (PStr c)) items)"
  by (induction items) (auto simp: dict_index_def split: option.splits)

lemma first_or_none_filter: "first_or_none (filter P xs) = find P xs"
  by (induction xs) (auto simp: first_or_none_def)

lemma tops_filter: "(\<lambda>it. \<exists>c \<in> set [''shirt'', ''hoodie'']. map_of it ''category'' = Some (PStr c)) = is_top"
  by (auto simp: is_top_def fun_eq_iff)
lemma bottoms_filter: "(\<lambda>it. \<exists>c \<in> set [''pants'', ''shorts'']. map_of it ''category'' = Some (PStr c)) = is_bottom"
  by (auto simp: is_bottom_def fun_eq_iff)

lemma top_entry_id:
  "(\<forall>t. sel = Some t \<longrightarrow> map_of t ''id'' \<noteq> None \<and> map_of t ''category'' \<noteq> None) \<Longrightarrow>
   \<exists>e. top_entry sel = Inr e \<and> map_option sel_id e = (case sel of None \<Rightarrow> None | Some t \<Rightarrow> map_of t ''id'')"
  by (cases sel) (auto simp: top_entry_def dict_index_def split: option.splits)

lemma bottom_entry_id:
  "(\<forall>t. sel = Some t \<longrightarrow> map_of t ''id'' \<noteq> None \<and> map_of t ''category'' \<noteq> None) \<Longrightarrow>
   \<exists>e. bottom_entry sel = Inr e \<and> map_option sel_id e = (case sel of None \<Rightarrow> None | Some t \<Rightarrow> map_of t ''id'')"
  by (cases sel) (auto simp: bottom_entry_def dict_index_def split: option.splits)

text \<open>
  C9. A candidate item carries an \<^verbatim>\<open>'id'\<close> and a \<^verbatim>\<open>'category'\<close> entry: the inventory
  stores a category with every item and \<^verbatim>\<open>_format_wardrobe_for_llm\<close> sets both keys. The
  hypotheses ask no more than that shape, and less of it: every item has a \<^verbatim>\<open>'category'\<close>
  entry, and the first top and the first bottom, where there is one, have an \<^verbatim>\<open>'id'\<close>
  entry. For every request text and every such list of items the demo service returns a
  response; its top is the id of the first item whose category is shirt or hoodie and its bottom
  the id of the first item whose category is pants or shorts (none where no item matches); cost
  and tokens are 0. The service is a function of the request text and the items alone: it has no
  tracker to read or change, so \<^verbatim>\<open>can_make_request\<close> is unaffected.
\<close>

theorem demo_selects_first_matching_items:
  assumes categories: "\<forall>it \<in> set wardrobe_items. map_of it ''category'' \<noteq> None"
    and top_id: "\<forall>t. find is_top wardrobe_items = Some t \<longrightarrow> map_of t ''id'' \<noteq> None"
    and bottom_id: "\<forall>b. find is_bottom wardrobe_items = Some b \<longrightarrow> map_of b ''id'' \<noteq> None"
  shows "\<exists>r. demo_generate_outfit_recommendation user_request wardrobe_items = Inr r \<and>
           map_option sel_id (outfit_top (resp_outfit r)) =
             (case find is_top wardrobe_items of None \<Rightarrow> None | Some t \<Rightarrow> map_of t ''id'') \<and>
           map_option sel_id (outfit_bottom (resp_outfit r)) =
             (case find is_bottom wardrobe_items of None \<Rightarrow> None | Some b \<Rightarrow> map_of b ''id'') \<and>
           md_cost_usd (resp_metadata r) = 0 \<and>
           md_tokens_used (resp_metadata r) = 0"
proof -
  have tops: "items_in_categories [''shirt'', ''hoodie''] wardrobe_items = Inr (filter is_top wardrobe_items)"
    using items_in_categories_filter [OF categories, of "[''shirt'', ''hoodie'']"]
    by (simp only: tops_filter)
  have bottoms: "items_in_categories [''pants'', ''shorts''] wardrobe_items = Inr (filter is_bottom wardrobe_items)"
    using items_in_categories_filter [OF categories, of "[''pants'', ''shorts'']"]
    by (simp only: bottoms_filter)
  have "\<forall>t. find is_top wardrobe_items = Some t \<longrightarrow> map_of t ''id'' \<noteq> None \<and> map_of t ''category'' \<noteq> None"
    using top_id by (auto simp: find_Some_iff is_top_def)
  then obtain te where te: "top_entry (find is_top wardrobe_items) = Inr te"
    "map_option sel_id te = (case find is_top wardrobe_items of None \<Rightarrow> None | Some t \<Rightarrow> map_of t ''id'')"
    using top_entry_id by blast
  have "\<forall>t. find is_bottom wardrobe_items = Some t \<longrightarrow> map_of t ''id'' \<noteq> None \<and> map_of t ''category'' \<noteq> None"
    using bottom_id by (auto simp: find_Some_iff is_bottom_def)
  then obtain be where be: "bottom_entry (find is_bottom wardrobe_items) = Inr be"
    "map_option sel_id be = (case find is_bottom wardrobe_items of None \<Rightarrow> None | Some t \<Rightarrow> map_of t ''id'')"
    using bottom_entry_id by blast
  show ?thesis
    using te be
    by (simp add: demo_generate_outfit_recommendation_def tops bottoms first_or_none_filter Let_def)
qed

theorem demo_selects_first_matching_items_witness:
  "\<exists>r. demo_generate_outfit_recommendation ''casual friday'' [shirt_item, pants_item] = Inr r \<and>
        map_option sel_id (outfit_top (resp_outfit r)) = Some (PInt 1) \<and>
        map_option sel_id (outfit_bottom (resp_outfit r)) = Some (PInt 2) \<and>
        md_cost_usd (resp_metadata r) = 0 \<and> md_tokens_used (resp_metadata r) = 0"
  using demo_selects_first_matching_items [of "[shirt_item, pants_item]" "''casual friday''"]
  by (simp add: shirt_item_def pants_item_def is_top_def is_bottom_def)

end
